theory Spec2Isabelle
  imports Complex_Main "HOL-Library.Extended_Nat" "HOL-Library.Sublist"
begin

section \<open>Common data\<close>

text \<open>
  Exceptions of the Python sources are values. Only the exceptions that the modelled
  functions can raise are listed; \<open>ValueError\<close> and \<open>ArgumentTypeError\<close> carry their message,
  \<open>NameError\<close> the name that is not bound,
  and \<open>RuntimeError\<close> is what the tensor library raises for a shape it cannot produce.
\<close>

datatype py_error =
    IndexError
  | AttributeError
  | StopIteration
  | ZeroDivisionError
  | RuntimeError
  | NameError string
  | ValueError string
  | ArgumentTypeError string

section \<open>model.py: generation sequences\<close>

text \<open>
  A generation tensor of shape \<open>[batch_size, seq_len]\<close>: the size of the last dimension is
  kept beside the rows, since \<open>shape[-1]\<close> is defined for a batch of no rows too.
\<close>

record generation =
  seq_len :: nat
  rows :: "int list list"




text \<open>
  \<open>pad_generation_sequence\<close>, one row at a time (the tensor operations act on the last
  dimension, row by row). \<open>first_eos\<close> is the value the source calls \<open>lengths\<close> after the
  \<open>min\<close>: the eos mask gets one more \<open>True\<close> at its end, a position that holds an eos
  keeps its index and every other one becomes infinity, and the minimum is taken.
  Positions whose index is greater than it are filled with the padding id.
\<close>

definition first_eos :: "int \<Rightarrow> int list \<Rightarrow> enat" where
  "first_eos target_eos row =
     (let lengths = map (\<lambda>t. t = target_eos) row @ [True];
          a = [0..<length lengths];
          vals = map (\<lambda>(b, i). if b then enat i else \<infinity>) (zip lengths a)
      in fold min (tl vals) (hd vals))"

definition pad_generation_row :: "int \<Rightarrow> int \<Rightarrow> int list \<Rightarrow> int list" where
  "pad_generation_row padding_idx target_eos row =
     (let lengths = first_eos target_eos row;
          a = [0..<length row + 1];
          mask = map (\<lambda>i. enat i > lengths) (butlast a)
      in map (\<lambda>(m, t). if m then padding_idx else t) (zip mask row))"

definition pad_generation_sequence :: "int \<Rightarrow> generation \<Rightarrow> int \<Rightarrow> generation" where
  "pad_generation_sequence padding_idx tgt_generation target_eos =
     tgt_generation\<lparr>rows := map (pad_generation_row padding_idx target_eos) (rows tgt_generation)\<rparr>"






section \<open>model.py: the attention snapshot\<close>

text \<open>
  The fields of \<open>MultiHeadAttention\<close> that \<open>set_attention_scores\<close> reads and writes. The
  argument is \<open>None\<close> or a tensor; \<open>numpy\<close> stands for \<open>scores.cpu().detach().numpy()\<close>,
  which needs a tensor: on \<open>None\<close> the attribute lookup raises. The two \<open>if\<close>s of the
  source are run one after the other, and the state reached when the exception is raised
  is returned with it.
\<close>

record 't attention_state =
  store_attention_scores :: bool
  training :: bool
  attention_scores :: "'t option"

definition set_attention_scores ::
  "('t \<Rightarrow> 't) \<Rightarrow> ('t, 'z) attention_state_scheme \<Rightarrow> 't option
   \<Rightarrow> ('t, 'z) attention_state_scheme \<times> (py_error + unit)" where
  "set_attention_scores numpy self scores =
     (let self1 = (if scores = None then self\<lparr>attention_scores := None\<rparr> else self)
      in if store_attention_scores self1 \<and> \<not> training self1
         then (case scores of
                 None \<Rightarrow> (self1, Inl AttributeError)
               | Some s \<Rightarrow> (self1\<lparr>attention_scores := Some (numpy s)\<rparr>, Inr ()))
         else (self1, Inr ()))"

section \<open>transformer_runner.py: early stopping\<close>

text \<open>
  The training state that the epoch loop of \<open>train\<close> carries, and the end of one epoch:
  a skipped validation gives a list of zeros, one per n-gram level, and the first entry
  of the list is compared with the best value so far.
\<close>

record train_state =
  cur_epoch :: nat
  best_bleu :: real
  num_poor :: nat

definition train_initial :: train_state where
  "train_initial = \<lparr>cur_epoch = 1, best_bleu = 0, num_poor = 0\<rparr>"

definition epoch_bookkeeping ::
  "nat \<Rightarrow> real list option \<Rightarrow> train_state \<Rightarrow> py_error + train_state" where
  "epoch_bookkeeping num_levels computed st =
     (let bleu = (case computed of Some b \<Rightarrow> b | None \<Rightarrow> replicate num_levels 0)
      in case bleu of
           [] \<Rightarrow> Inl IndexError
         | b0 # _ \<Rightarrow>
             Inr ((if b0 < best_bleu st
                   then st\<lparr>num_poor := num_poor st + 1\<rparr>
                   else st\<lparr>num_poor := 0, best_bleu := b0\<rparr>)
                  \<lparr>cur_epoch := cur_epoch st + 1\<rparr>))"

section \<open>blue_score.py\<close>

text \<open>
  Python floats are modelled as reals, \<open>p ** (1/n)\<close> as \<open>powr\<close> (both give \<open>0\<close> for
  \<open>p = 0\<close> and a positive exponent). \<open>py_slice\<close> is \<open>seq[lo:hi]\<close> with Python's treatment
  of negative and out-of-range bounds. The loop of \<open>grouper\<close> runs over \<open>range(len(seq))\<close>
  and breaks at the first index with no full n-gram. \<open>BLEU_score\<close> divides by \<open>n\<close> after
  the loop, which raises for \<open>n = 0\<close>.
\<close>

definition py_slice :: "'a list \<Rightarrow> int \<Rightarrow> int \<Rightarrow> 'a list" where
  "py_slice xs lo hi =
     (let len = int (length xs);
          norm = (\<lambda>k. if k < 0 then max 0 (k + len) else min k len);
          l = norm lo; h = norm hi
      in take (nat (h - l)) (drop (nat l) xs))"

fun grouper_loop :: "'a list \<Rightarrow> int \<Rightarrow> nat list \<Rightarrow> 'a list list \<Rightarrow> 'a list list" where
  "grouper_loop seq n [] ngrams = ngrams"
| "grouper_loop seq n (i # is) ngrams =
     (if int i + n > int (length seq) then ngrams
      else grouper_loop seq n is (ngrams @ [py_slice seq (int i) (int i + n)]))"

definition grouper :: "'a list \<Rightarrow> int \<Rightarrow> 'a list list" where
  "grouper seq n = grouper_loop seq n [0..<length seq] []"

definition n_gram_precision :: "'a list \<Rightarrow> 'a list \<Rightarrow> int \<Rightarrow> real" where
  "n_gram_precision reference candidate n =
     (if int (length candidate) < n \<or> int (length reference) < n then 0
      else let ref = grouper reference n;
               c = grouper candidate n
           in if length c = 0 then 0
              else let cnt = fold (\<lambda>ngram cnt. if ngram \<in> set ref then cnt + 1 else cnt) c (0::nat)
                   in real cnt / real (length c))"

definition brevity_penalty :: "'a list \<Rightarrow> 'a list \<Rightarrow> real" where
  "brevity_penalty reference candidate =
     (if length candidate = 0 then 0
      else let r = real (length reference) / real (length candidate)
           in if r < 1 then 1 else exp (1 - r))"

definition BLEU_score :: "'a list \<Rightarrow> 'a list \<Rightarrow> int \<Rightarrow> py_error + real" where
  "BLEU_score reference candidate n =
     (if int (length candidate) < n then Inr 0
      else let bp = brevity_penalty reference candidate;
               p = fold (\<lambda>i p. p * n_gram_precision reference candidate i) [1..n] 1
           in if n = 0 then Inl ZeroDivisionError
              else Inr (bp * (p powr (1 / real_of_int n)) * 100))"

text \<open>
  The formula of the specification, from its words: the n-grams of a sequence are its
  contiguous sub-sequences of length \<open>n\<close>; the precision of order \<open>n\<close> is the number of
  candidate n-grams (each occurrence counted) that occur among the reference n-grams, over
  the number of candidate n-grams, and \<open>0\<close> when a sequence is shorter than \<open>n\<close>; the score
  is the brevity penalty times the n-th root of the product of the precisions, times 100.
\<close>

definition ngrams_spec :: "'a list \<Rightarrow> nat \<Rightarrow> 'a list list" where
  "ngrams_spec xs n = map (\<lambda>j. take n (drop j xs)) [0..<length xs + 1 - n]"

definition precision_spec :: "'a list \<Rightarrow> 'a list \<Rightarrow> nat \<Rightarrow> real" where
  "precision_spec reference candidate n =
     (if length candidate < n \<or> length reference < n then 0
      else real (length (filter (\<lambda>g. g \<in> set (ngrams_spec reference n)) (ngrams_spec candidate n)))
           / real (length (ngrams_spec candidate n)))"

definition BLEU_spec :: "'a list \<Rightarrow> 'a list \<Rightarrow> nat \<Rightarrow> real" where
  "BLEU_spec reference candidate n =
     (if length candidate < n then 0
      else brevity_penalty reference candidate
           * (\<Prod>i = 1..n. precision_spec reference candidate i) powr (1 / real n) * 100)"

section \<open>transformer_runner.py: BLEU of a batch\<close>

text \<open>
  \<open>str_int\<close> is Python's \<open>str\<close> on integers. \<open>clean_loop\<close> is the loop that drops the
  special tokens and stops at the first eos. The BLEU function is a parameter of
  \<open>compute_batch_total_bleu\<close>, as in the source; an exception that it raises leaves the
  function. Row \<open>i\<close> of the candidate tensor is read for every row \<open>i\<close> of the reference
  tensor, which raises \<open>IndexError\<close> when the candidate tensor has fewer rows.
\<close>

fun str_nat :: "nat \<Rightarrow> string" where
  "str_nat n =
     (if n < 10 then [''0123456789'' ! n]
      else str_nat (n div 10) @ [''0123456789'' ! (n mod 10)])"

declare str_nat.simps [simp del]

definition str_int :: "int \<Rightarrow> string" where
  "str_int i = (if i < 0 then CHR ''-'' # str_nat (nat (- i)) else str_nat (nat i))"

fun clean_loop :: "int \<Rightarrow> int \<Rightarrow> int \<Rightarrow> int list \<Rightarrow> string list \<Rightarrow> string list" where
  "clean_loop sos_idx eos_idx pad_idx [] clean = clean"
| "clean_loop sos_idx eos_idx pad_idx (token # rest) clean =
     (if token \<notin> set [sos_idx, eos_idx, pad_idx]
      then clean_loop sos_idx eos_idx pad_idx rest (clean @ [str_int token])
      else if token = eos_idx then clean
      else clean_loop sos_idx eos_idx pad_idx rest clean)"

definition clean_seq :: "int \<Rightarrow> int \<Rightarrow> int \<Rightarrow> int list \<Rightarrow> string list" where
  "clean_seq sos_idx eos_idx pad_idx seq = clean_loop sos_idx eos_idx pad_idx seq []"

fun level_loop ::
  "(string list \<Rightarrow> string list \<Rightarrow> int \<Rightarrow> py_error + real) \<Rightarrow> string list \<Rightarrow> string list
   \<Rightarrow> (nat \<times> int) list \<Rightarrow> real list \<Rightarrow> py_error + real list" where
  "level_loop bleu_score_func ref_clean cand_clean [] bleu = Inr bleu"
| "level_loop bleu_score_func ref_clean cand_clean ((j, n) # rest) bleu =
     (case bleu_score_func ref_clean cand_clean n of
        Inl e \<Rightarrow> Inl e
      | Inr v \<Rightarrow> level_loop bleu_score_func ref_clean cand_clean rest (bleu[j := v]))"

fun batch_loop ::
  "(string list \<Rightarrow> string list \<Rightarrow> int \<Rightarrow> py_error + real) \<Rightarrow> int list list \<Rightarrow> int list list
   \<Rightarrow> int \<Rightarrow> int \<Rightarrow> int \<Rightarrow> int list \<Rightarrow> nat list \<Rightarrow> real list \<Rightarrow> py_error + real list" where
  "batch_loop bleu_score_func target_y_ref target_y_cand sos_idx eos_idx pad_idx n_gram_levels [] bleu
     = Inr bleu"
| "batch_loop bleu_score_func target_y_ref target_y_cand sos_idx eos_idx pad_idx n_gram_levels (i # is) bleu
     = (if i \<ge> length target_y_cand then Inl IndexError
        else let ref_clean = clean_seq sos_idx eos_idx pad_idx (target_y_ref ! i);
                 cand_clean = clean_seq sos_idx eos_idx pad_idx (target_y_cand ! i)
             in case level_loop bleu_score_func ref_clean cand_clean
                       (List.enumerate 0 n_gram_levels) bleu of
                  Inl e \<Rightarrow> Inl e
                | Inr bleu' \<Rightarrow>
                    batch_loop bleu_score_func target_y_ref target_y_cand sos_idx eos_idx pad_idx
                      n_gram_levels is bleu')"

definition compute_batch_total_bleu ::
  "(string list \<Rightarrow> string list \<Rightarrow> int \<Rightarrow> py_error + real) \<Rightarrow> int list list \<Rightarrow> int list list
   \<Rightarrow> int \<Rightarrow> int \<Rightarrow> int \<Rightarrow> int list \<Rightarrow> py_error + (real list \<times> nat)" where
  "compute_batch_total_bleu bleu_score_func target_y_ref target_y_cand sos_idx eos_idx pad_idx n_gram_levels =
     (let batch_size = length target_y_ref;
          bleu = replicate (length n_gram_levels) 0
      in case batch_loop bleu_score_func target_y_ref target_y_cand sos_idx eos_idx pad_idx
                n_gram_levels [0..<batch_size] bleu of
           Inl e \<Rightarrow> Inl e
         | Inr bleu' \<Rightarrow> Inr (bleu', batch_size))"

section \<open>utils.py: the NaN check\<close>

text \<open>
  A tensor is the list of its elements together with the two texts that the tensor library
  gives for it: \<open>tensor_str\<close> is \<open>str(t)\<close>, which \<open>print\<close> writes, and \<open>tensor_format\<close> is
  \<open>format(t, "")\<close>, which the f-string of the error message interpolates (the two differ
  for a tensor of no dimensions, which is formatted as its number). \<open>nan_check\<close> returns the
  lines it printed and its outcome; \<open>print(t, t_name)\<close> writes the two renderings with a
  space between them.
\<close>

datatype py_float = NaN | PlusInfinity | MinusInfinity | Finite real

record tensor =
  elems :: "py_float list"
  tensor_str :: string
  tensor_format :: string

definition nan_check :: "tensor \<Rightarrow> string \<Rightarrow> string list \<times> (py_error + unit)" where
  "nan_check t t_name =
     (let is_nan = list_ex (\<lambda>x. x = NaN) (elems t)
      in if is_nan
         then ([tensor_str t @ '' '' @ t_name],
               Inl (ValueError (''NaNs in tensor '' @ tensor_format t)))
         else ([], Inr ()))"

section \<open>model.py: the forward pass of multi-head attention\<close>

text \<open>
  The tensor operations of the library are the fields of \<open>torch\<close>; the layers of the module
  are fields of the module record, which extends the snapshot state. Dropout takes the
  training flag and the random generator and returns the new generator, so that forward
  passes from the same state can be compared. The mask argument is called \<open>msk\<close>.
\<close>

record ('t, 'm) torch =
  matmul :: "'t \<Rightarrow> 't \<Rightarrow> 't"
  transpose_last :: "'t \<Rightarrow> 't"
  div_sqrt :: "'t \<Rightarrow> nat \<Rightarrow> 't"
  expand_mask :: "'m \<Rightarrow> nat \<Rightarrow> 'm"
  masked_fill_neg_inf :: "'t \<Rightarrow> 'm \<Rightarrow> 't"
  softmax :: "'t \<Rightarrow> 't"
  size0 :: "'t \<Rightarrow> nat"
  split_heads :: "'t \<Rightarrow> nat \<Rightarrow> nat \<Rightarrow> nat \<Rightarrow> 't"
  merge_heads :: "'t \<Rightarrow> nat \<Rightarrow> nat \<Rightarrow> 't"
  to_numpy :: "'t \<Rightarrow> 't"

record ('t, 'g) multi_head_attention = "'t attention_state" +
  d_head :: nat
  num_heads :: nat
  q_linear :: "'t \<Rightarrow> 't"
  k_linear :: "'t \<Rightarrow> 't"
  v_linear :: "'t \<Rightarrow> 't"
  out_linear :: "'t \<Rightarrow> 't"
  atten_dropout :: "bool \<Rightarrow> 'g \<Rightarrow> 't \<Rightarrow> 't \<times> 'g"
  dropout :: "bool \<Rightarrow> 'g \<Rightarrow> 't \<Rightarrow> 't \<times> 'g"
  generator :: 'g

definition attention ::
  "('t, 'm) torch \<Rightarrow> ('t, 'g) multi_head_attention \<Rightarrow> 't \<Rightarrow> 't \<Rightarrow> 't \<Rightarrow> 'm option
   \<Rightarrow> ('t, 'g) multi_head_attention \<times> (py_error + 't)" where
  "attention T self query key val msk =
     (let scores0 = div_sqrt T (matmul T query (transpose_last T key)) (d_head self);
          scores = (case msk of
                      None \<Rightarrow> scores0
                    | Some m \<Rightarrow> masked_fill_neg_inf T scores0 (expand_mask T m (num_heads self)));
          (self1, r) = set_attention_scores (to_numpy T) self (Some scores)
      in case r of
           Inl e \<Rightarrow> (self1, Inl e)
         | Inr _ \<Rightarrow>
             (let (attention_weights, g) =
                    atten_dropout self1 (training self1) (generator self1) (softmax T scores)
              in (self1\<lparr>generator := g\<rparr>, Inr (matmul T attention_weights val))))"

definition forward ::
  "('t, 'm) torch \<Rightarrow> ('t, 'g) multi_head_attention \<Rightarrow> 't \<Rightarrow> 't option \<Rightarrow> 't option \<Rightarrow> 'm option
   \<Rightarrow> ('t, 'g) multi_head_attention \<times> (py_error + 't)" where
  "forward T self query key val msk =
     (let (key1, value1) =
            (case key of
               None \<Rightarrow> (query, query)
             | Some k \<Rightarrow> (case val of None \<Rightarrow> (query, query) | Some v \<Rightarrow> (k, v)));
          q = q_linear self query;
          k = k_linear self key1;
          v = v_linear self value1;
          bs = size0 T q;
          q4 = split_heads T q bs (num_heads self) (d_head self);
          k4 = split_heads T k bs (num_heads self) (d_head self);
          v4 = split_heads T v bs (num_heads self) (d_head self);
          (self1, r) = attention T self q4 k4 v4 msk
      in case r of
           Inl e \<Rightarrow> (self1, Inl e)
         | Inr x \<Rightarrow>
             (let x1 = merge_heads T x bs (num_heads self1 * d_head self1);
                  x2 = out_linear self1 x1;
                  (x3, g) = dropout self1 (training self1) (generator self1) x2
              in (self1\<lparr>generator := g\<rparr>, Inr x3)))"

section \<open>transformer_runner.py and utils.py: saving a checkpoint\<close>

text \<open>
  A parameter has a name, a device and its data; the state dictionary that \<open>torch.save\<close>
  writes is the list of parameters as placed when it is called. What a file holds is
  kept symbolically: the serialized parameters, possibly inside a gzip stream. A path is
  its directory and its final component; \<open>path_suffix\<close> is \<open>Path.suffix\<close>. Whether a path
  can be opened is a field of the file system (the text of the \<open>OSError\<close>, if any).
  \<open>save_model\<close> returns the runner and the file system it leaves, with its outcome: an
  exception raised after \<open>self.model.cpu()\<close> leaves the model on the CPU.

  \<open>save_model\<close> reaches \<open>smart_open\<close> through the global name \<open>a2_utils\<close>. The names that the
  module binds at its top level are those of its imports and its class (\<open>wandb\<close> too, when
  that import succeeds); looking up any other global name raises \<open>NameError\<close>.
\<close>

datatype device = CPU | CUDA nat

record 'v parameter =
  param_name :: string
  param_device :: device
  param_data :: 'v

datatype 'v file_content = Written "'v parameter list" | Gzipped "'v file_content"

record path =
  path_parent :: string
  path_name :: string

definition path_str :: "path \<Rightarrow> string" where
  "path_str p = (if path_parent p = [] then path_name p else path_parent p @ ''/'' @ path_name p)"

definition rfind :: "char \<Rightarrow> string \<Rightarrow> nat option" where
  "rfind c s =
     (if c \<in> set s then Some (length s - 1 - length (takeWhile (\<lambda>x. x \<noteq> c) (rev s))) else None)"

definition path_suffix :: "path \<Rightarrow> string" where
  "path_suffix p =
     (case rfind (CHR ''.'') (path_name p) of
        None \<Rightarrow> []
      | Some i \<Rightarrow> if 0 < i \<and> i < length (path_name p) - 1 then drop i (path_name p) else [])"

record 'v filesystem =
  files :: "path \<rightharpoonup> 'v file_content"
  open_error :: "path \<Rightarrow> string option"

datatype opener = Builtin_open | Gzip_open

record file_handle =
  handle_opener :: opener
  handle_path :: path
  handle_mode :: string

definition smart_open :: "'v filesystem \<Rightarrow> path \<Rightarrow> string \<Rightarrow> py_error + file_handle" where
  "smart_open fs p mode =
     (if path_suffix p = ''.gz''
      then (if mode = [] then Inl IndexError
            else let mode1 = (if last mode \<noteq> CHR ''b'' then mode @ ''t'' else mode)
                 in case open_error fs p of
                      Some e \<Rightarrow> Inl (ArgumentTypeError (''can't open '' @ [CHR 0x27] @ path_str p @ [CHR 0x27] @ '': '' @ e))
                    | None \<Rightarrow> Inr \<lparr>handle_opener = Gzip_open, handle_path = p, handle_mode = mode1\<rparr>)
      else (case open_error fs p of
              Some e \<Rightarrow> Inl (ArgumentTypeError (''can't open '' @ [CHR 0x27] @ path_str p @ [CHR 0x27] @ '': '' @ e))
            | None \<Rightarrow> Inr \<lparr>handle_opener = Builtin_open, handle_path = p, handle_mode = mode\<rparr>))"

definition torch_save :: "'v parameter list \<Rightarrow> file_handle \<Rightarrow> 'v filesystem \<Rightarrow> 'v filesystem" where
  "torch_save state_dict f fs =
     fs\<lparr>files := (files fs)(handle_path f \<mapsto>
          (case handle_opener f of
             Builtin_open \<Rightarrow> Written state_dict
           | Gzip_open \<Rightarrow> Gzipped (Written state_dict)))\<rparr>"

definition module_globals :: "string list" where
  "module_globals =
     [''time'', ''tqdm'', ''argparse'', ''Callable'', ''Sequence'', ''torch'', ''utils'',
      ''dataloader'', ''TransformerEncoderDecoder'', ''BLEU_score'', ''TransformerRunner'']"

definition load_global :: "string \<Rightarrow> py_error + unit" where
  "load_global name =
     (if name \<in> set module_globals then Inr () else Inl (NameError name))"

record 'v runner =
  model_parameters :: "'v parameter list"
  model_path :: path

definition model_to :: "device \<Rightarrow> 'v runner \<Rightarrow> 'v runner" where
  "model_to d self = self\<lparr>model_parameters := map (\<lambda>p. p\<lparr>param_device := d\<rparr>) (model_parameters self)\<rparr>"

definition save_model ::
  "'v runner \<Rightarrow> 'v filesystem \<Rightarrow> ('v runner \<times> 'v filesystem) \<times> (py_error + unit)" where
  "save_model self fs =
     (case model_parameters self of
        [] \<Rightarrow> ((self, fs), Inl StopIteration)
      | p # _ \<Rightarrow>
          (let device = param_device p;
               self1 = model_to CPU self
           in case load_global ''a2_utils'' of
                Inl e \<Rightarrow> ((self1, fs), Inl e)
              | Inr _ \<Rightarrow>
                  (case smart_open fs (model_path self1) ''wb'' of
                     Inl e \<Rightarrow> ((self1, fs), Inl e)
                   | Inr model_file \<Rightarrow>
                       (let fs1 = torch_save (model_parameters self1) model_file fs
                        in ((model_to device self1, fs1), Inr ())))))"

section \<open>model.py: beam search for one example\<close>

text \<open>
  The claim about \<open>beam_search_decode\<close> and \<open>beam_search_decode_slow\<close> is about a batch of
  one example, and both are modelled for one example. The encoder and the decoder are one
  parameter \<open>decoder\<close>: from a prefix to the log-probabilities of the next token (the
  decoder works on each row of its batch alone). A log-probability is a real number or
  minus infinity, which the first step writes at the eos position; sums stand for the
  floating-point sums.
\<close>

datatype lp = NegInf | Fin real

fun lp_add :: "lp \<Rightarrow> lp \<Rightarrow> lp" where
  "lp_add (Fin a) (Fin b) = Fin (a + b)"
| "lp_add _ _ = NegInf"

fun lp_less :: "lp \<Rightarrow> lp \<Rightarrow> bool" where
  "lp_less (Fin a) (Fin b) \<longleftrightarrow> a < b"
| "lp_less NegInf (Fin b) \<longleftrightarrow> True"
| "lp_less _ NegInf \<longleftrightarrow> False"

text \<open>
  Sorting by decreasing score, stable: elements of equal score keep their order. This is
  Python's \<open>sorted(..., reverse=True)\<close>; for \<open>torch.topk\<close>, which leaves the order of equal
  values open, it fixes the lowest index first.
\<close>

fun insort_desc :: "lp \<times> 'a \<Rightarrow> (lp \<times> 'a) list \<Rightarrow> (lp \<times> 'a) list" where
  "insort_desc x [] = [x]"
| "insort_desc x (y # ys) =
     (if lp_less (fst x) (fst y) then y # insort_desc x ys else x # y # ys)"

definition sort_desc :: "(lp \<times> 'a) list \<Rightarrow> (lp \<times> 'a) list" where
  "sort_desc xs = foldr insort_desc xs []"

definition then_do :: "'e + 'a \<Rightarrow> ('a \<Rightarrow> 'e + 'b) \<Rightarrow> 'e + 'b" where
  "then_do r f = (case r of Inl e \<Rightarrow> Inl e | Inr x \<Rightarrow> f x)"

definition topk :: "lp list \<Rightarrow> nat \<Rightarrow> py_error + (lp list \<times> nat list)" where
  "topk xs n =
     (if n > length xs then Inl RuntimeError
      else let best = take n (sort_desc (zip xs [0..<length xs]))
           in Inr (map fst best, map snd best))"

fun topk_rows :: "lp list list \<Rightarrow> nat \<Rightarrow> py_error + (lp list list \<times> nat list list)" where
  "topk_rows [] n = Inr ([], [])"
| "topk_rows (r # rs) n =
     then_do (topk r n) (\<lambda>(v, i).
     then_do (topk_rows rs n) (\<lambda>(vs, is). Inr (v # vs, i # is)))"

text \<open>
  \<open>reshape_rows n t\<close> is \<open>t.reshape(n, -1)\<close> on a tensor given by its rows: the elements in
  row-major order are cut into \<open>n\<close> rows. It raises when the tensor is empty (the free
  dimension is ambiguous) or the number of elements is not a multiple of \<open>n\<close>.
  \<open>reshape_column n t\<close> is \<open>t.reshape(n, 1)\<close> read as a list.
\<close>

definition reshape_rows :: "nat \<Rightarrow> 'a list list \<Rightarrow> py_error + 'a list list" where
  "reshape_rows n t =
     (let flat = concat t; w = length flat div n
      in if flat = [] then Inl RuntimeError
         else if n = 0 then Inl RuntimeError
         else if length flat mod n = 0
              then Inr (map (\<lambda>i. take w (drop (i * w) flat)) [0..<n])
              else Inl RuntimeError)"

definition repeat_and_reshape_for_beam_search ::
  "'a list list \<Rightarrow> nat \<Rightarrow> nat \<Rightarrow> py_error + 'a list list" where
  "repeat_and_reshape_for_beam_search t k expan =
     then_do (reshape_rows k t) (\<lambda>t3. Inr (concat (map (replicate expan) t3)))"

definition reshape_column :: "nat \<Rightarrow> 'a list list \<Rightarrow> py_error + 'a list" where
  "reshape_column n t = (if length (concat t) = n then Inr (concat t) else Inl RuntimeError)"

text \<open>
  The first decoder step. \<open>log_probs[:, :, target_eos] = -inf\<close> accepts a negative index and
  raises outside the vocabulary.
\<close>

definition set_eos_neg_inf :: "int \<Rightarrow> lp list \<Rightarrow> py_error + lp list" where
  "set_eos_neg_inf target_eos log_probs =
     (let v = int (length log_probs)
      in if target_eos \<ge> v \<or> target_eos < - v then Inl IndexError
         else Inr (log_probs[nat (if target_eos < 0 then target_eos + v else target_eos) := NegInf]))"

definition initialize_beams_for_beam_search ::
  "(int list \<Rightarrow> lp list) \<Rightarrow> int \<Rightarrow> int \<Rightarrow> nat \<Rightarrow> py_error + (int list list \<times> lp list list)" where
  "initialize_beams_for_beam_search decoder target_sos target_eos k =
     then_do (set_eos_neg_inf target_eos (decoder [target_sos])) (\<lambda>log_probs.
     then_do (topk log_probs k) (\<lambda>(top_probs, top_indices).
       Inr (map (\<lambda>i. [target_sos, int i]) top_indices,
            map (\<lambda>p. [Fin 0, p]) top_probs)))"

definition score_sequence_for_beam_search ::
  "int \<Rightarrow> int list list \<Rightarrow> lp list list \<Rightarrow> lp list list \<times> lp list" where
  "score_sequence_for_beam_search padding_idx tgt_generation seq_log_probs =
     (let tgt_padded = map (pad_generation_row padding_idx padding_idx) tgt_generation;
          pos_valid = map (map (\<lambda>t. t \<noteq> padding_idx)) tgt_padded;
          log_probs = map (\<lambda>(vs, ps). map (\<lambda>(v, p). if v then p else Fin 0) (zip vs ps))
                        (zip pos_valid seq_log_probs);
          s = map (\<lambda>ps. fold (\<lambda>p acc. lp_add acc p) ps (Fin 0)) log_probs
      in (log_probs, s))"

text \<open>
  The loop over \<open>range(expan)\<close> that appends a candidate with an eos to the finished lists
  and the index of any other candidate to \<open>alive_idxs_b\<close>; the sort of the finished lists
  (only when they hold more than one entry, cut to \<open>k\<close>); and the stopping test, which reads
  \<open>alive_idxs_b[0]\<close> when something is finished and whose \<open>elif\<close> branch takes the minimum of
  the empty list when nothing is finished and \<open>k = 0\<close>.
\<close>

fun split_beams ::
  "bool list \<Rightarrow> int list list \<Rightarrow> lp list \<Rightarrow> nat list
   \<Rightarrow> int list list \<times> lp list \<times> nat list \<Rightarrow> int list list \<times> lp list \<times> nat list" where
  "split_beams has_eos tgt scores [] acc = acc"
| "split_beams has_eos tgt scores (beam # rest) (fin_seqs, fin_scores, alive_idxs_b) =
     (if has_eos ! beam
      then split_beams has_eos tgt scores rest
             (fin_seqs @ [tgt ! beam], fin_scores @ [scores ! beam], alive_idxs_b)
      else split_beams has_eos tgt scores rest (fin_seqs, fin_scores, alive_idxs_b @ [beam]))"

definition sort_finished ::
  "nat \<Rightarrow> int list list \<times> lp list \<Rightarrow> int list list \<times> lp list" where
  "sort_finished k fin =
     (case fin of (fin_seqs, fin_scores) \<Rightarrow>
        if length fin_seqs > 1
        then let z = take k (sort_desc (zip fin_scores fin_seqs))
             in (map snd z, map fst z)
        else (fin_seqs, fin_scores))"

definition has_finished_check ::
  "nat \<Rightarrow> lp list \<Rightarrow> lp list \<Rightarrow> nat list \<Rightarrow> py_error + bool" where
  "has_finished_check k fin_scores scores alive_idxs_b =
     (case fin_scores of
        f # fs \<Rightarrow>
          (let best_finished = fold (\<lambda>x m. if lp_less m x then x else m) fs f
           in case alive_idxs_b of
                [] \<Rightarrow> Inl IndexError
              | a # _ \<Rightarrow> Inr (lp_less (scores ! a) best_finished))
      | [] \<Rightarrow>
          if k = 0 then Inl (ValueError ''min() arg is an empty sequence'') else Inr False)"

text \<open>
  The state of the search for one example, and one round of the loop body of
  \<open>beam_search_decode\<close> for a batch of one example (\<open>cur_batch_size = 1\<close>, so the compaction
  keeps the only row, and no unfinished example left means \<open>break\<close>).
\<close>

record beam_state =
  tgt_generation :: "int list list"
  seq_log_probs :: "lp list list"
  finished_sequences :: "int list list"
  finished_scores :: "lp list"

datatype loop_step = Break beam_state | Continue beam_state

definition beam_search_step ::
  "(int list \<Rightarrow> lp list) \<Rightarrow> int \<Rightarrow> int \<Rightarrow> nat \<Rightarrow> beam_state \<Rightarrow> py_error + loop_step" where
  "beam_search_step decoder padding_idx target_eos k st =
     (let expan = 2 * k
      in then_do (topk_rows (map decoder (tgt_generation st)) expan) (\<lambda>(log_probs, pred).
         then_do (repeat_and_reshape_for_beam_search (tgt_generation st) k expan) (\<lambda>tgt1.
         then_do (repeat_and_reshape_for_beam_search (seq_log_probs st) k expan) (\<lambda>lps1.
         then_do (reshape_column (k * expan) log_probs) (\<lambda>log_probs1.
         then_do (reshape_column (k * expan) pred) (\<lambda>pred1.
           (let tgt2 = map (\<lambda>(r, t). r @ [int t]) (zip tgt1 pred1);
                lps2 = map (\<lambda>(r, p). r @ [p]) (zip lps1 log_probs1);
                (lps3, scores0) = score_sequence_for_beam_search padding_idx tgt2 lps2
            in then_do (topk scores0 expan) (\<lambda>(scores, topk_idx).
                 (let tgt3 = map (\<lambda>i. tgt2 ! i) topk_idx;
                      lps4 = map (\<lambda>i. lps3 ! i) topk_idx;
                      has_eos = map (\<lambda>r. target_eos \<in> set r) tgt3;
                      (fin_seqs0, fin_scores0, alive_idxs_b) =
                         split_beams has_eos tgt3 scores [0..<expan]
                           (finished_sequences st, finished_scores st, []);
                      (fin_seqs, fin_scores) = sort_finished k (fin_seqs0, fin_scores0)
                  in then_do (has_finished_check k fin_scores scores alive_idxs_b) (\<lambda>has_finished.
                       if has_finished
                       then Inr (Break \<lparr>tgt_generation = tgt3, seq_log_probs = lps4,
                                         finished_sequences = fin_seqs, finished_scores = fin_scores\<rparr>)
                       else
                         then_do (reshape_rows k (map (\<lambda>i. tgt3 ! i) (take k alive_idxs_b))) (\<lambda>tgt5.
                         then_do (reshape_rows k (map (\<lambda>i. lps4 ! i) (take k alive_idxs_b))) (\<lambda>lps5.
                           Inr (Continue \<lparr>tgt_generation = tgt5, seq_log_probs = lps5,
                                  finished_sequences = fin_seqs, finished_scores = fin_scores\<rparr>)))))))))))))"

text \<open>
  The loop \<open>while not all(is_finished) and tgt_generation.shape[-1] < max_len\<close>:
  \<open>is_finished\<close> is never written, so for one example the first conjunct is true. The round
  may in principle change the length of the rows by any amount (through the reshape), so
  the loop is defined as a partial function, with \<open>None\<close> for a run that does not end. A
  tensor of no rows arises only for \<open>k = 0\<close>, where both the round and the final reshape
  raise. After the loop the best alive beam is used when nothing is finished.
\<close>

definition last_dim :: "'a list list \<Rightarrow> nat" where
  "last_dim t = (case t of [] \<Rightarrow> 0 | r # _ \<Rightarrow> length r)"

partial_function (option) beam_search_loop ::
  "(int list \<Rightarrow> lp list) \<Rightarrow> int \<Rightarrow> int \<Rightarrow> int \<Rightarrow> nat \<Rightarrow> beam_state \<Rightarrow> (py_error + beam_state) option" where
  [code]: "beam_search_loop decoder padding_idx target_eos max_len k st =
     (if int (last_dim (tgt_generation st)) < max_len
      then (case beam_search_step decoder padding_idx target_eos k st of
              Inl e \<Rightarrow> Some (Inl e)
            | Inr (Break st') \<Rightarrow> Some (Inr st')
            | Inr (Continue st') \<Rightarrow> beam_search_loop decoder padding_idx target_eos max_len k st')
      else Some (Inr st))"

definition beam_search_finish :: "nat \<Rightarrow> beam_state \<Rightarrow> py_error + int list list" where
  "beam_search_finish k st =
     then_do (reshape_rows k (tgt_generation st)) (\<lambda>tgt.
       (let fin = (if length (finished_sequences st) = 0
                   then finished_sequences st @ [tgt ! 0]
                   else finished_sequences st)
        in Inr [fin ! 0]))"

definition beam_search_decode ::
  "(int list \<Rightarrow> lp list) \<Rightarrow> int \<Rightarrow> int \<Rightarrow> int \<Rightarrow> int \<Rightarrow> nat \<Rightarrow> (py_error + int list list) option" where
  "beam_search_decode decoder padding_idx target_sos target_eos max_len k =
     (case initialize_beams_for_beam_search decoder target_sos target_eos k of
        Inl e \<Rightarrow> Some (Inl e)
      | Inr (tgt, lps) \<Rightarrow>
          (case beam_search_loop decoder padding_idx target_eos max_len k
                  \<lparr>tgt_generation = tgt, seq_log_probs = lps,
                   finished_sequences = [], finished_scores = []\<rparr> of
             None \<Rightarrow> None
           | Some (Inl e) \<Rightarrow> Some (Inl e)
           | Some (Inr st) \<Rightarrow> Some (beam_search_finish k st)))"

text \<open>
  \<open>beam_search_decode_slow\<close> for the example: the same round, with the candidates padded
  after their eos before they are scored and no reshape of the alive beams; the loop is
  \<open>for i in range(1, max_len)\<close>.
\<close>

definition beam_search_step_slow ::
  "(int list \<Rightarrow> lp list) \<Rightarrow> int \<Rightarrow> int \<Rightarrow> nat \<Rightarrow> beam_state \<Rightarrow> py_error + loop_step" where
  "beam_search_step_slow decoder padding_idx target_eos k st =
     (let expan = 2 * k
      in then_do (topk_rows (map decoder (tgt_generation st)) expan) (\<lambda>(log_probs, pred).
         then_do (repeat_and_reshape_for_beam_search (tgt_generation st) k expan) (\<lambda>tgt1.
         then_do (repeat_and_reshape_for_beam_search (seq_log_probs st) k expan) (\<lambda>lps1.
         then_do (reshape_column (k * expan) log_probs) (\<lambda>log_probs1.
         then_do (reshape_column (k * expan) pred) (\<lambda>pred1.
           (let tgt2 = map (\<lambda>(r, t). r @ [int t]) (zip tgt1 pred1);
                lps2 = map (\<lambda>(r, p). r @ [p]) (zip lps1 log_probs1);
                tgt2p = map (pad_generation_row padding_idx target_eos) tgt2;
                (lps3, scores0) = score_sequence_for_beam_search padding_idx tgt2p lps2
            in then_do (topk scores0 expan) (\<lambda>(scores, topk_idx).
                 (let tgt3 = map (\<lambda>i. tgt2p ! i) topk_idx;
                      lps4 = map (\<lambda>i. lps3 ! i) topk_idx;
                      has_eos = map (\<lambda>r. target_eos \<in> set r) tgt3;
                      (fin_seqs0, fin_scores0, alive_idxs_b) =
                         split_beams has_eos tgt3 scores [0..<expan]
                           (finished_sequences st, finished_scores st, []);
                      (fin_seqs, fin_scores) = sort_finished k (fin_seqs0, fin_scores0)
                  in then_do (has_finished_check k fin_scores scores alive_idxs_b) (\<lambda>has_finished.
                       if has_finished
                       then Inr (Break \<lparr>tgt_generation = tgt3, seq_log_probs = lps4,
                                         finished_sequences = fin_seqs, finished_scores = fin_scores\<rparr>)
                       else Inr (Continue
                              \<lparr>tgt_generation = map (\<lambda>i. tgt3 ! i) (take k alive_idxs_b),
                               seq_log_probs = map (\<lambda>i. lps4 ! i) (take k alive_idxs_b),
                               finished_sequences = fin_seqs, finished_scores = fin_scores\<rparr>)))))))))))"

fun beam_search_loop_slow ::
  "(int list \<Rightarrow> lp list) \<Rightarrow> int \<Rightarrow> int \<Rightarrow> nat \<Rightarrow> int list \<Rightarrow> beam_state \<Rightarrow> py_error + beam_state" where
  "beam_search_loop_slow decoder padding_idx target_eos k [] st = Inr st"
| "beam_search_loop_slow decoder padding_idx target_eos k (i # is) st =
     (case beam_search_step_slow decoder padding_idx target_eos k st of
        Inl e \<Rightarrow> Inl e
      | Inr (Break st') \<Rightarrow> Inr st'
      | Inr (Continue st') \<Rightarrow> beam_search_loop_slow decoder padding_idx target_eos k is st')"

definition beam_search_decode_slow ::
  "(int list \<Rightarrow> lp list) \<Rightarrow> int \<Rightarrow> int \<Rightarrow> int \<Rightarrow> int \<Rightarrow> nat \<Rightarrow> py_error + int list list" where
  "beam_search_decode_slow decoder padding_idx target_sos target_eos max_len k =
     then_do (initialize_beams_for_beam_search decoder target_sos target_eos k) (\<lambda>(tgt0, lps0).
     then_do (reshape_rows k tgt0) (\<lambda>tgt.
     then_do (reshape_rows k lps0) (\<lambda>lps.
     then_do (beam_search_loop_slow decoder padding_idx target_eos k [1..max_len - 1]
                \<lparr>tgt_generation = tgt, seq_log_probs = lps,
                 finished_sequences = [], finished_scores = []\<rparr>) (\<lambda>st.
       (if length (finished_sequences st) = 0
        then (case tgt_generation st of
                [] \<Rightarrow> Inl IndexError
              | g # _ \<Rightarrow> Inr [g])
        else Inr [finished_sequences st ! 0])))))"

text \<open>A decoder that predicts the same distribution after every prefix.\<close>

definition fixed_distribution :: "real list \<Rightarrow> int list \<Rightarrow> lp list" where
  "fixed_distribution probs pre = map (\<lambda>p. Fin (ln p)) probs"

section \<open>Padding after the end of the sequence\<close>

lemma first_eos_eq:
  "first_eos e xs = enat (length (takeWhile (\<lambda>t. t \<noteq> e) xs))"
proof -
  define j where "j = length (takeWhile (\<lambda>t. t \<noteq> e) xs)"
  define ls where "ls = map (\<lambda>t. t = e) xs @ [True]"
  define vals where "vals = map (\<lambda>(b, i). if b then enat i else \<infinity>) (zip ls [0..<length ls])"
  have len: "length vals = length xs + 1" by (simp add: vals_def ls_def)
  have nth: "vals ! i = (if ls ! i then enat i else \<infinity>)" if "i \<le> length xs" for i
  proof -
    from that have "i < length (zip ls [0..<length ls])" by (simp add: ls_def)
    then show ?thesis by (simp add: vals_def del: upt_Suc)
  qed
  have jle: "j \<le> length xs" by (simp add: j_def length_takeWhile_le)
  have lsj: "ls ! j"
  proof (cases "j < length xs")
    case True
    then have "\<not> (xs ! j \<noteq> e)" unfolding j_def by (rule nth_length_takeWhile)
    with True show ?thesis by (simp add: ls_def nth_append)
  next
    case False
    with jle have "j = length xs" by simp
    then show ?thesis by (simp add: ls_def nth_append)
  qed
  have lsi: "\<not> ls ! i" if "i < j" for i
  proof -
    from that have "i < length (takeWhile (\<lambda>t. t \<noteq> e) xs)" by (simp add: j_def)
    then have eq: "takeWhile (\<lambda>t. t \<noteq> e) xs ! i = xs ! i"
      and mem: "takeWhile (\<lambda>t. t \<noteq> e) xs ! i \<in> set (takeWhile (\<lambda>t. t \<noteq> e) xs)"
      by (rule takeWhile_nth, rule nth_mem)
    from set_takeWhileD[OF mem] eq have "xs ! i \<noteq> e" by simp
    moreover from that jle have "i < length xs" by simp
    ultimately show ?thesis by (simp add: ls_def nth_append)
  qed
  have ne: "vals \<noteq> []" using len by auto
  then have "fold min (tl vals) (hd vals) = Min (set vals)"
    by (cases vals) (simp_all add: Min.set_eq_fold [symmetric])
  also have "Min (set vals) = enat j"
  proof (rule Min_eqI)
    show "finite (set vals)" by simp
    show "enat j \<in> set vals"
    proof -
      have "j < length vals" using len jle by simp
      then have "vals ! j \<in> set vals" by (rule nth_mem)
      with nth[OF jle] lsj show ?thesis by simp
    qed
    fix y assume "y \<in> set vals"
    then obtain i where i: "i < length vals" "y = vals ! i" by (auto simp: in_set_conv_nth)
    then have "i \<le> length xs" using len by simp
    from nth[OF this] i lsi show "enat j \<le> y"
      by (cases "i < j") auto
  qed
  finally show ?thesis by (simp add: first_eos_def ls_def vals_def j_def Let_def)
qed

lemma pad_generation_row_eq:
  "pad_generation_row p e xs =
     map (\<lambda>(i, t). if i > length (takeWhile (\<lambda>t. t \<noteq> e) xs) then p else t) (zip [0..<length xs] xs)"
  by (simp add: pad_generation_row_def first_eos_eq Let_def zip_map1 split_def)

lemma pad_generation_row_length: "length (pad_generation_row p e xs) = length xs"
  by (simp add: pad_generation_row_eq)

lemma pad_generation_row_nth:
  "i < length xs \<Longrightarrow> pad_generation_row p e xs ! i =
     (if i > length (takeWhile (\<lambda>t. t \<noteq> e) xs) then p else xs ! i)"
  by (simp add: pad_generation_row_eq del: upt_Suc)

lemma pad_generation_row_first:
  "length (takeWhile (\<lambda>t. t \<noteq> e) (pad_generation_row p e xs)) =
     length (takeWhile (\<lambda>t. t \<noteq> e) xs)"
proof -
  define j where "j = length (takeWhile (\<lambda>t. t \<noteq> e) xs)"
  define ys where "ys = pad_generation_row p e xs"
  have jle: "j \<le> length xs" by (simp add: j_def length_takeWhile_le)
  have len: "length ys = length xs" by (simp add: ys_def pad_generation_row_length)
  have same: "ys ! i = xs ! i" if "i \<le> j" "i < length xs" for i
    using that by (simp add: ys_def pad_generation_row_nth j_def)
  have "takeWhile (\<lambda>t. t \<noteq> e) ys = take j ys"
  proof (rule takeWhile_eq_take_P_nth)
    fix i assume i: "i < j" "i < length ys"
    then have "i < length (takeWhile (\<lambda>t. t \<noteq> e) xs)" by (simp add: j_def)
    then have eq: "takeWhile (\<lambda>t. t \<noteq> e) xs ! i = xs ! i"
      and mem: "takeWhile (\<lambda>t. t \<noteq> e) xs ! i \<in> set (takeWhile (\<lambda>t. t \<noteq> e) xs)"
      by (rule takeWhile_nth, rule nth_mem)
    from set_takeWhileD[OF mem] eq have "xs ! i \<noteq> e" by simp
    with same[of i] i len show "ys ! i \<noteq> e" by simp
  next
    assume "j < length ys"
    then have j: "j < length xs" by (simp add: len)
    then have "\<not> (xs ! j \<noteq> e)" unfolding j_def by (rule nth_length_takeWhile)
    with same[of j] j show "\<not> ys ! j \<noteq> e" by simp
  qed
  then have "length (takeWhile (\<lambda>t. t \<noteq> e) ys) = min (length ys) j" by simp
  with jle len show ?thesis by (simp add: j_def ys_def)
qed

lemma pad_generation_row_idem:
  "pad_generation_row p e (pad_generation_row p e xs) = pad_generation_row p e xs"
  by (rule nth_equalityI)
     (simp_all add: pad_generation_row_length pad_generation_row_nth pad_generation_row_first)

lemma pad_generation_row_no_eos:
  assumes "e \<notin> set xs"
  shows "pad_generation_row p e xs = xs"
proof -
  from assms have "\<forall>x\<in>set xs. x \<noteq> e" by auto
  then have "takeWhile (\<lambda>t. t \<noteq> e) xs = xs" by (simp only: takeWhile_eq_all_conv)
  then have "length (takeWhile (\<lambda>t. t \<noteq> e) xs) = length xs" by (rule arg_cong)
  then show ?thesis
    by (intro nth_equalityI) (simp_all add: pad_generation_row_length pad_generation_row_nth)
qed

text \<open>
  C7. \<open>pad_generation_sequence\<close> is idempotent: for every generation tensor, padding id
  and eos id, padding the padded tensor again gives the padded tensor; and a tensor none of
  whose rows holds the eos id comes back unchanged.
\<close>

theorem pad_generation_sequence_idempotent:
  "pad_generation_sequence p (pad_generation_sequence p g e) e = pad_generation_sequence p g e
   \<and> ((\<forall>r \<in> set (rows g). e \<notin> set r) \<longrightarrow> pad_generation_sequence p g e = g)"
proof
  show "pad_generation_sequence p (pad_generation_sequence p g e) e = pad_generation_sequence p g e"
    by (simp add: pad_generation_sequence_def pad_generation_row_idem)
next
  show "(\<forall>r \<in> set (rows g). e \<notin> set r) \<longrightarrow> pad_generation_sequence p g e = g"
  proof
    assume "\<forall>r \<in> set (rows g). e \<notin> set r"
    then have "map (pad_generation_row p e) (rows g) = rows g"
      by (simp add: map_idI pad_generation_row_no_eos)
    then show "pad_generation_sequence p g e = g"
      by (simp add: pad_generation_sequence_def)
  qed
qed

theorem pad_generation_sequence_idempotent_witness:
  "pad_generation_sequence 2 \<lparr>seq_len = 3, rows = [[0, 5, 7], [0, 8, 9]]\<rparr> 1
       = \<lparr>seq_len = 3, rows = [[0, 5, 7], [0, 8, 9]]\<rparr>
   \<and> pad_generation_sequence 2 \<lparr>seq_len = 4, rows = [[0, 5, 1, 7], [0, 1, 9, 1]]\<rparr> 1
       = \<lparr>seq_len = 4, rows = [[0, 5, 1, 2], [0, 1, 2, 2]]\<rparr>
   \<and> pad_generation_sequence 2 \<lparr>seq_len = 4, rows = [[0, 5, 1, 2], [0, 1, 2, 2]]\<rparr> 1
       = \<lparr>seq_len = 4, rows = [[0, 5, 1, 2], [0, 1, 2, 2]]\<rparr>"
proof -
  have a: "\<forall>r \<in> set (rows \<lparr>seq_len = 3, rows = [[0, 5, 7], [0, 8, 9]]\<rparr>). (1::int) \<notin> set r"
    by simp
  have b: "pad_generation_sequence 2 \<lparr>seq_len = 4, rows = [[0, 5, 1, 7], [0, 1, 9, 1]]\<rparr> 1
       = \<lparr>seq_len = 4, rows = [[0, 5, 1, 2], [0, 1, 2, 2]]\<rparr>"
    by (simp add: pad_generation_sequence_def pad_generation_row_def first_eos_def Let_def upt_rec)
  from pad_generation_sequence_idempotent
         [of 2 "\<lparr>seq_len = 3, rows = [[0, 5, 7], [0, 8, 9]]\<rparr>" 1] a
  have c: "pad_generation_sequence 2 \<lparr>seq_len = 3, rows = [[0, 5, 7], [0, 8, 9]]\<rparr> 1
       = \<lparr>seq_len = 3, rows = [[0, 5, 7], [0, 8, 9]]\<rparr>"
    by blast
  from pad_generation_sequence_idempotent
         [of 2 "\<lparr>seq_len = 4, rows = [[0, 5, 1, 7], [0, 1, 9, 1]]\<rparr>" 1] b
  have d: "pad_generation_sequence 2 \<lparr>seq_len = 4, rows = [[0, 5, 1, 2], [0, 1, 2, 2]]\<rparr> 1
       = \<lparr>seq_len = 4, rows = [[0, 5, 1, 2], [0, 1, 2, 2]]\<rparr>"
    by simp
  from b c d show ?thesis by blast
qed

section \<open>Greedy decoding\<close>







section \<open>Clearing the attention snapshot\<close>

text \<open>
  C8. With the store flag set and the module in evaluation mode, \<open>set_attention_scores\<close>
  called with \<open>None\<close> clears the stored snapshot and then raises \<open>AttributeError\<close>: the
  second \<open>if\<close> of the source is not an \<open>elif\<close>, and it reads \<open>scores.cpu()\<close> of \<open>None\<close>.
\<close>

theorem set_attention_scores_none_raises:
  "set_attention_scores numpy
     \<lparr>store_attention_scores = True, training = False, attention_scores = a\<rparr> None
   = (\<lparr>store_attention_scores = True, training = False, attention_scores = None\<rparr>,
      Inl AttributeError)"
  by (simp add: set_attention_scores_def)

section \<open>Early stopping\<close>

text \<open>
  C5 (as stated). The claim that a BLEU value equal to the best one so far counts as a
  non-improvement fails: in the first epoch with BLEU \<open>0\<close> at the first level (the best
  value starts at \<open>0\<close>) the counter stays at \<open>0\<close> instead of becoming \<open>1\<close>.
\<close>

theorem early_stopping_equal_bleu_resets:
  "[0, 0] ! 0 \<le> best_bleu train_initial
   \<and> epoch_bookkeeping 2 (Some [0, 0]) train_initial
       = Inr \<lparr>cur_epoch = 2, best_bleu = 0, num_poor = 0\<rparr>
   \<and> num_poor \<lparr>cur_epoch = 2, best_bleu = 0, num_poor = 0\<rparr> \<noteq> num_poor train_initial + 1"
  by (simp add: epoch_bookkeeping_def train_initial_def)

text \<open>
  C5 (amended). In every epoch where validation BLEU is computed (a non-empty list of
  values), the bookkeeping succeeds; if the first-listed level's BLEU is strictly less than
  the best value so far, the counter is incremented by one and the best value is kept;
  otherwise (greater or equal) the counter is reset to zero and the best value becomes the
  new BLEU.
\<close>

theorem early_stopping_bookkeeping:
  "bleu \<noteq> [] \<Longrightarrow>
   \<exists>st'. epoch_bookkeeping n (Some bleu) st = Inr st'
     \<and> (bleu ! 0 < best_bleu st \<longrightarrow>
          num_poor st' = num_poor st + 1 \<and> best_bleu st' = best_bleu st)
     \<and> (best_bleu st \<le> bleu ! 0 \<longrightarrow> num_poor st' = 0 \<and> best_bleu st' = bleu ! 0)"
  by (cases bleu) (auto simp: epoch_bookkeeping_def)

theorem early_stopping_bookkeeping_witness:
  "[1, 2] \<noteq> ([]::real list)
   \<and> epoch_bookkeeping 2 (Some [1, 2]) \<lparr>cur_epoch = 3, best_bleu = 5, num_poor = 1\<rparr>
       = Inr \<lparr>cur_epoch = 4, best_bleu = 5, num_poor = 2\<rparr>
   \<and> epoch_bookkeeping 2 (Some [7, 2]) \<lparr>cur_epoch = 3, best_bleu = 5, num_poor = 1\<rparr>
       = Inr \<lparr>cur_epoch = 4, best_bleu = 7, num_poor = 0\<rparr>"
proof -
  have ne: "[1, 2] \<noteq> ([]::real list)" by simp
  from early_stopping_bookkeeping [OF ne, of 2 "\<lparr>cur_epoch = 3, best_bleu = 5, num_poor = 1\<rparr>"]
  show ?thesis by (simp add: epoch_bookkeeping_def)
qed

section \<open>The BLEU score\<close>

lemma grouper_loop_eq:
  assumes "1 \<le> n"
  shows "grouper_loop seq (int n) [i..<length seq] acc
           = acc @ map (\<lambda>j. take n (drop j seq)) [i..<length seq + 1 - n]"
proof (induction "length seq - i" arbitrary: i acc)
  case 0
  then have "length seq \<le> i" by simp
  with assms show ?case by simp
next
  case (Suc k)
  then have lt: "i < length seq" by simp
  then have u: "[i..<length seq] = i # [Suc i..<length seq]" by (simp add: upt_rec)
  show ?case
  proof (cases "int i + int n > int (length seq)")
    case True
    then have "length seq + 1 - n \<le> i" by simp
    with True u show ?thesis by simp
  next
    case False
    then have le: "i + n \<le> length seq" by simp
    then have sl: "py_slice seq (int i) (int i + int n) = take n (drop i seq)"
      by (simp add: py_slice_def Let_def min_def)
    from le assms have "i < length seq + 1 - n" by simp
    then have v: "[i..<length seq + 1 - n] = i # [Suc i..<length seq + 1 - n]"
      by (simp add: upt_rec)
    from Suc(2) have "k = length seq - Suc i" by simp
    from Suc(1)[OF this] False u sl v show ?thesis by simp
  qed
qed

lemma grouper_eq: "1 \<le> n \<Longrightarrow> grouper seq (int n) = ngrams_spec seq n"
  by (simp add: grouper_def ngrams_spec_def grouper_loop_eq)

lemma count_fold:
  "fold (\<lambda>g c. if P g then c + 1 else c) xs (c0::nat) = c0 + length (filter P xs)"
  by (induction xs arbitrary: c0) simp_all

lemma n_gram_precision_eq:
  "1 \<le> n \<Longrightarrow> n_gram_precision r c (int n) = precision_spec r c n"
  by (simp add: n_gram_precision_def precision_spec_def grouper_eq count_fold Let_def)

lemma fold_prod_upto:
  "fold (\<lambda>i p. p * f i) [1..int n] (1::real) = (\<Prod>i = 1..n. f (int i))"
proof (induction n)
  case 0
  show ?case by simp
next
  case (Suc n)
  have "[1..int (Suc n)] = [1..int n] @ [int (Suc n)]"
    using upto_rec2[of 1 "int (Suc n)"] by simp
  with Suc show ?case by simp
qed

lemma BLEU_score_eq_spec:
  assumes n: "1 \<le> n"
  shows "BLEU_score reference candidate (int n) = Inr (BLEU_spec reference candidate n)"
proof -
  have "(\<Prod>i = 1..n. n_gram_precision reference candidate (int i))
          = (\<Prod>i = 1..n. precision_spec reference candidate i)"
    by (rule prod.cong) (simp_all add: n_gram_precision_eq)
  with n show ?thesis
    by (simp add: BLEU_score_def BLEU_spec_def fold_prod_upto Let_def)
qed

text \<open>
  C4. For every reference, candidate and \<open>n \<ge> 1\<close>, \<open>BLEU_score\<close> returns (without
  raising) the value of the specification's formula: \<open>0\<close> when the candidate has fewer than
  \<open>n\<close> tokens, and otherwise the brevity penalty times the n-th root of the product of the
  precisions of orders \<open>1..n\<close>, times \<open>100\<close>, where a precision counts every candidate
  n-gram that occurs among the reference n-grams, without clipping.
\<close>

theorem BLEU_score_formula:
  "1 \<le> n \<Longrightarrow> BLEU_score reference candidate n = Inr (BLEU_spec reference candidate (nat n))"
  using BLEU_score_eq_spec [of "nat n" reference candidate] by simp

theorem BLEU_score_formula_witness:
  "(1::int) \<le> 1
   \<and> BLEU_score [''the'', ''cat'', ''sat''] [''the'', ''cat'', ''sat''] 1 = Inr 100
   \<and> BLEU_score [''a''] [''a'', ''a''] 1 = Inr 100
   \<and> BLEU_score [''a'', ''b'', ''c''] [''a'', ''b''] 3 = Inr 0"
proof -
  have h: "(1::int) \<le> 1" and h3: "(1::int) \<le> 3" by simp_all
  have a: "BLEU_score [''the'', ''cat'', ''sat''] [''the'', ''cat'', ''sat''] 1 = Inr 100"
    using BLEU_score_formula [OF h, of "[''the'', ''cat'', ''sat'']" "[''the'', ''cat'', ''sat'']"]
    by (simp add: BLEU_spec_def precision_spec_def ngrams_spec_def brevity_penalty_def upt_rec)
  have b: "BLEU_score [''a''] [''a'', ''a''] 1 = Inr 100"
    using BLEU_score_formula [OF h, of "[''a'']" "[''a'', ''a'']"]
    by (simp add: BLEU_spec_def precision_spec_def ngrams_spec_def brevity_penalty_def upt_rec)
  have c: "BLEU_score [''a'', ''b'', ''c''] [''a'', ''b''] 3 = Inr 0"
    using BLEU_score_formula [OF h3, of "[''a'', ''b'', ''c'']" "[''a'', ''b'']"]
    by (simp add: BLEU_spec_def)
  from h a b c show ?thesis by blast
qed

section \<open>The BLEU values of a batch\<close>

lemma level_loop_eq:
  assumes f: "\<And>n. n \<in> set ls \<Longrightarrow> f r c n = Inr (g n)"
    and len: "k + length ls \<le> length bleu"
  shows "level_loop f r c (List.enumerate k ls) bleu
           = Inr (take k bleu @ map g ls @ drop (k + length ls) bleu)"
  using assms
proof (induction ls arbitrary: k bleu)
  case Nil
  then show ?case by simp
next
  case (Cons n ls)
  have fn: "f r c n = Inr (g n)" using Cons.prems(1) by simp
  have k: "k < length bleu" using Cons.prems(2) by simp
  have "level_loop f r c (List.enumerate (Suc k) ls) (bleu[k := g n])
          = Inr (take (Suc k) (bleu[k := g n]) @ map g ls @ drop (Suc k + length ls) (bleu[k := g n]))"
    using Cons.prems by (intro Cons.IH) simp_all
  moreover have "take (Suc k) (bleu[k := g n]) = take k bleu @ [g n]"
    using k by (simp add: take_Suc_conv_app_nth)
  ultimately show ?case using fn by simp
qed

lemma level_loop_all:
  assumes f: "\<And>n. n \<in> set ls \<Longrightarrow> f r c n = Inr (g n)"
    and len: "length bleu = length ls"
  shows "level_loop f r c (List.enumerate 0 ls) bleu = Inr (map g ls)"
  using level_loop_eq[of ls f r c g 0 bleu] assms by simp

lemma batch_loop_eq:
  assumes f: "\<And>r c n. n \<in> set ls \<Longrightarrow> f r c n = Inr (g r c n)"
    and "is \<noteq> []" and "\<forall>i \<in> set is. i < length cand" and "length bleu = length ls"
  shows "batch_loop f ref cand s e p ls is bleu
           = Inr (map (g (clean_seq s e p (ref ! last is)) (clean_seq s e p (cand ! last is))) ls)"
  using assms(2-)
proof (induction "is" arbitrary: bleu)
  case Nil
  then show ?case by simp
next
  case (Cons i "is")
  let ?r = "clean_seq s e p (ref ! i)" and ?c = "clean_seq s e p (cand ! i)"
  have lv: "level_loop f ?r ?c (List.enumerate 0 ls) bleu = Inr (map (g ?r ?c) ls)"
    using f Cons.prems(3) by (intro level_loop_all) simp_all
  show ?case
  proof (cases "is = []")
    case True
    with lv Cons.prems show ?thesis by simp
  next
    case False
    have "batch_loop f ref cand s e p ls is (map (g ?r ?c) ls)
            = Inr (map (g (clean_seq s e p (ref ! last is)) (clean_seq s e p (cand ! last is))) ls)"
      using False Cons.prems by (intro Cons.IH) simp_all
    with lv False Cons.prems show ?thesis by simp
  qed
qed

text \<open>
  C1. For every non-empty batch (with a candidate row for every reference row) and every
  BLEU function that returns a value at the requested levels, \<open>compute_batch_total_bleu\<close>
  returns, at each requested level, the BLEU value of the last example of the batch (the
  values of the earlier examples are overwritten, not summed), together with the batch
  size.
\<close>

theorem compute_batch_total_bleu_last:
  assumes "target_y_ref \<noteq> []"
    and "length target_y_ref \<le> length target_y_cand"
    and "\<And>r c n. n \<in> set n_gram_levels \<Longrightarrow> f r c n = Inr (g r c n)"
  shows "compute_batch_total_bleu f target_y_ref target_y_cand sos eos pad n_gram_levels
           = Inr (map (g (clean_seq sos eos pad (last target_y_ref))
                         (clean_seq sos eos pad (target_y_cand ! (length target_y_ref - 1))))
                      n_gram_levels,
                  length target_y_ref)"
proof -
  let ?is = "[0..<length target_y_ref]"
  from assms(1) have ne: "?is \<noteq> []" by simp
  from assms(1) have l: "last ?is = length target_y_ref - 1"
    by (metis ne last_upt length_greater_0_conv)
  have "batch_loop f target_y_ref target_y_cand sos eos pad n_gram_levels ?is
          (replicate (length n_gram_levels) 0)
        = Inr (map (g (clean_seq sos eos pad (target_y_ref ! last ?is))
                      (clean_seq sos eos pad (target_y_cand ! last ?is))) n_gram_levels)"
    using assms(2) ne by (intro batch_loop_eq assms(3)) simp_all
  with l assms(1) show ?thesis
    by (simp add: compute_batch_total_bleu_def Let_def last_conv_nth)
qed

theorem compute_batch_total_bleu_last_witness:
  "[[1, 4, 5, 2, 0], [1, 4, 5, 2, 0]] \<noteq> ([]::int list list)
   \<and> length [[1::int, 4, 5, 2, 0], [1, 4, 5, 2, 0]] \<le> length [[1::int, 4, 5, 2, 0], [1, 4, 8, 2, 0]]
   \<and> compute_batch_total_bleu BLEU_score [[1, 4, 5, 2, 0], [1, 4, 5, 2, 0]]
         [[1, 4, 5, 2, 0], [1, 4, 8, 2, 0]] 1 2 0 [2, 1]
       = Inr ([0, 50], 2)"
proof -
  let ?ref = "[[1, 4, 5, 2, 0], [1, 4, 5, 2, 0]] :: int list list"
  let ?cand = "[[1, 4, 5, 2, 0], [1, 4, 8, 2, 0]] :: int list list"
  have ne: "?ref \<noteq> []" and le: "length ?ref \<le> length ?cand" by simp_all
  have f: "BLEU_score r c n = Inr (BLEU_spec r c (nat n))"
    if "n \<in> set [2, 1]" for r c :: "string list" and n :: int
    using that BLEU_score_eq_spec [of "nat n" r c] by auto
  have s4: "str_int 4 = ''4''" and s5: "str_int 5 = ''5''" and s8: "str_int 8 = ''8''"
    by (simp_all add: str_int_def str_nat.simps)
  have cl: "clean_seq 1 2 0 [1, 4, 5, 2, 0] = [''4'', ''5'']"
    "clean_seq 1 2 0 [1, 4, 8, 2, 0] = [''4'', ''8'']"
    by (simp_all add: clean_seq_def s4 s5 s8)
  have p2: "precision_spec [''4'', ''5''] [''4'', ''8''] 2 = 0"
    by (simp add: precision_spec_def ngrams_spec_def upt_rec)
  have "{1..2::nat} = {1, 2}" by auto
  then have b2: "BLEU_spec [''4'', ''5''] [''4'', ''8''] 2 = 0"
    by (simp add: BLEU_spec_def p2)
  have b1: "BLEU_spec [''4'', ''5''] [''4'', ''8''] 1 = 50"
    by (simp add: BLEU_spec_def precision_spec_def ngrams_spec_def brevity_penalty_def upt_rec)
  from compute_batch_total_bleu_last [of ?ref ?cand "[2, 1]" BLEU_score
         "\<lambda>r c n. BLEU_spec r c (nat n)" 1 2 0, OF ne le f]
  have "compute_batch_total_bleu BLEU_score ?ref ?cand 1 2 0 [2, 1] = Inr ([0, 50], 2)"
    using b1 by (simp add: cl b2)
  with ne le show ?thesis by blast
qed

section \<open>The NaN check\<close>

text \<open>
  C9 (as stated). The claim that the error raised for a tensor with a NaN element refers
  to the supplied name fails: the message is built from the tensor, and the name is only
  printed.
\<close>

theorem nan_check_message_without_name:
  "nan_check \<lparr>elems = [Finite 1, NaN], tensor_str = ''tensor([1., nan])'',
              tensor_format = ''tensor([1., nan])''\<rparr> ''weights''
     = ([''tensor([1., nan]) weights''], Inl (ValueError ''NaNs in tensor tensor([1., nan])''))
   \<and> \<not> sublist ''weights'' ''NaNs in tensor tensor([1., nan])''"
  by (simp add: nan_check_def sublist_Cons_right)

text \<open>
  C9 (amended). For every tensor and supplied name: if the tensor has a NaN element,
  \<open>nan_check\<close> fails with a \<open>ValueError\<close> (whose message need not refer to the name); if the
  tensor has no NaN element, it prints nothing and returns without raising.
\<close>

theorem nan_check_behaviour:
  "(NaN \<in> set (elems t) \<longrightarrow> (\<exists>msg. snd (nan_check t t_name) = Inl (ValueError msg)))
   \<and> (NaN \<notin> set (elems t) \<longrightarrow> nan_check t t_name = ([], Inr ()))"
  by (auto simp: nan_check_def list_ex_iff)

theorem nan_check_behaviour_witness:
  "NaN \<in> set (elems \<lparr>elems = [NaN], tensor_str = ''tensor(nan)'', tensor_format = ''nan''\<rparr>)
   \<and> nan_check \<lparr>elems = [NaN], tensor_str = ''tensor(nan)'', tensor_format = ''nan''\<rparr> ''x''
       = ([''tensor(nan) x''], Inl (ValueError ''NaNs in tensor nan''))
   \<and> NaN \<notin> set (elems \<lparr>elems = [Finite 1, PlusInfinity], tensor_str = ''tensor([1., inf])'',
                          tensor_format = ''tensor([1., inf])''\<rparr>)
   \<and> nan_check \<lparr>elems = [Finite 1, PlusInfinity], tensor_str = ''tensor([1., inf])'',
                  tensor_format = ''tensor([1., inf])''\<rparr> ''x''
       = ([], Inr ())"
  using nan_check_behaviour [of "\<lparr>elems = [NaN], tensor_str = ''tensor(nan)'', tensor_format = ''nan''\<rparr>" "''x''"]
        nan_check_behaviour [of "\<lparr>elems = [Finite 1, PlusInfinity], tensor_str = ''tensor([1., inf])'',
                                   tensor_format = ''tensor([1., inf])''\<rparr>" "''x''"]
  by (simp add: nan_check_def)

section \<open>Self-attention when only one of key and value is given\<close>

text \<open>
  C10. For every module state, query and tensor \<open>t\<close>: \<open>forward\<close> with key \<open>t\<close> and no value,
  and \<open>forward\<close> with value \<open>t\<close> and no key, give the output and the final state of the call
  with neither, which is self-attention with key and value equal to the query.
\<close>

theorem forward_one_of_key_value_ignored:
  "forward T self query (Some t) None msk = forward T self query None None msk
   \<and> forward T self query None (Some t) msk = forward T self query None None msk
   \<and> forward T self query None None msk = forward T self query (Some query) (Some query) msk"
  by (simp add: forward_def)

section \<open>Saving a checkpoint\<close>

text \<open>
  C2. \<open>save_model\<close> looks up the global name \<open>a2_utils\<close>, which the module never binds (it
  imports \<open>utils\<close>). For every model with at least one parameter and every file system, the
  call moves the parameters to the CPU and then raises \<open>NameError\<close>: no file is written and
  the parameters are not moved back to their device.
\<close>

theorem save_model_raises_name_error:
  "save_model \<lparr>model_parameters = p # ps, model_path = pth\<rparr> fs
     = ((model_to CPU \<lparr>model_parameters = p # ps, model_path = pth\<rparr>, fs),
        Inl (NameError ''a2_utils''))"
  by (simp add: save_model_def load_global_def module_globals_def)

section \<open>The two beam searches\<close>

text \<open>
  The example: five tokens, sos \<open>0\<close>, eos \<open>1\<close>, padding \<open>2\<close>, and a decoder that gives the
  tokens the probabilities \<open>1/32, 3/32, 1/8, 1/2, 1/4\<close> after every prefix, so that the two
  most probable tokens are \<open>3\<close> and \<open>4\<close> and no candidate ever holds an eos. Beam width 1.
\<close>

lemma initialize_beams_fixed:
  "initialize_beams_for_beam_search (fixed_distribution [1/32, 3/32, 1/8, 1/2, 1/4]) 0 1 (Suc 0)
     = Inr ([[0, 3]], [[Fin 0, Fin (ln (1/2))]])"
  by (simp add: initialize_beams_for_beam_search_def fixed_distribution_def set_eos_neg_inf_def
        topk_def sort_desc_def then_do_def upt_rec)

lemma reshape_rows_fixed:
  "reshape_rows (Suc 0) [[0::int, 3]] = Inr [[0, 3]]"
  "reshape_rows (Suc 0) [[Fin 0, Fin (ln (1/2))]] = Inr [[Fin 0, Fin (ln (1/2))]]"
  by (simp_all add: reshape_rows_def)

lemma beam_search_decode_fixed_2:
  "beam_search_decode (fixed_distribution [1/32, 3/32, 1/8, 1/2, 1/4]) 2 0 1 2 1
     = Some (Inr [[0, 3]])"
  by (simp add: beam_search_decode_def initialize_beams_fixed beam_search_loop.simps last_dim_def
        beam_search_finish_def reshape_rows_fixed then_do_def)

lemma beam_search_step_slow_fixed_first:
  "beam_search_step_slow (fixed_distribution [1/32, 3/32, 1/8, 1/2, 1/4]) 2 1 (Suc 0)
     \<lparr>tgt_generation = [[0, 3]], seq_log_probs = [[Fin 0, Fin (ln (1/2))]],
      finished_sequences = [], finished_scores = []\<rparr>
   = Inr (Continue
       \<lparr>tgt_generation = [[0, 3, 3]],
        seq_log_probs = [[Fin 0, Fin (ln (1/2)), Fin (ln (1/2))]],
        finished_sequences = [], finished_scores = []\<rparr>)"
proof -
  have tk: "topk_rows [fixed_distribution [1/32, 3/32, 1/8, 1/2, 1/4] [0, 3]] 2
              = Inr ([[Fin (ln (1/2)), Fin (ln (1/4))]], [[3, 4]])"
    by (simp add: fixed_distribution_def topk_def sort_desc_def then_do_def upt_rec)
  have rp: "repeat_and_reshape_for_beam_search [[0::int, 3]] (Suc 0) 2 = Inr [[0, 3], [0, 3]]"
    "repeat_and_reshape_for_beam_search [[Fin 0, Fin (ln (1/2))]] (Suc 0) 2
       = Inr [[Fin 0, Fin (ln (1/2))], [Fin 0, Fin (ln (1/2))]]"
    by (simp_all add: repeat_and_reshape_for_beam_search_def reshape_rows_fixed then_do_def
          numeral_2_eq_2)
  have pd: "pad_generation_row 2 1 [0, 3, 3] = [0, 3, 3]" "pad_generation_row 2 1 [0, 3, 4] = [0, 3, 4]"
    "pad_generation_row 2 2 [0, 3, 3] = [0, 3, 3]" "pad_generation_row 2 2 [0, 3, 4] = [0, 3, 4]"
    by (simp_all add: pad_generation_row_no_eos)
  show ?thesis
    by (simp add: beam_search_step_slow_def tk rp reshape_column_def pd then_do_def
          score_sequence_for_beam_search_def topk_def sort_desc_def
          sort_finished_def has_finished_check_def upt_rec del: topk_rows.simps)
qed

lemma beam_search_decode_slow_fixed_2:
  "beam_search_decode_slow (fixed_distribution [1/32, 3/32, 1/8, 1/2, 1/4]) 2 0 1 2 1
     = Inr [[0, 3, 3]]"
  by (simp add: beam_search_decode_slow_def initialize_beams_fixed reshape_rows_fixed then_do_def upto_rec1
        beam_search_step_slow_fixed_first)

lemma beam_search_step_fixed_first:
  "beam_search_step (fixed_distribution [1/32, 3/32, 1/8, 1/2, 1/4]) 2 1 (Suc 0)
     \<lparr>tgt_generation = [[0, 3]], seq_log_probs = [[Fin 0, Fin (ln (1/2))]],
      finished_sequences = [], finished_scores = []\<rparr>
   = Inr (Continue
       \<lparr>tgt_generation = [[0, 3, 3]],
        seq_log_probs = [[Fin 0, Fin (ln (1/2)), Fin (ln (1/2))]],
        finished_sequences = [], finished_scores = []\<rparr>)"
proof -
  have tk: "topk_rows [fixed_distribution [1/32, 3/32, 1/8, 1/2, 1/4] [0, 3]] 2
              = Inr ([[Fin (ln (1/2)), Fin (ln (1/4))]], [[3, 4]])"
    by (simp add: fixed_distribution_def topk_def sort_desc_def then_do_def upt_rec)
  have rp: "repeat_and_reshape_for_beam_search [[0::int, 3]] (Suc 0) 2 = Inr [[0, 3], [0, 3]]"
    "repeat_and_reshape_for_beam_search [[Fin 0, Fin (ln (1/2))]] (Suc 0) 2
       = Inr [[Fin 0, Fin (ln (1/2))], [Fin 0, Fin (ln (1/2))]]"
    by (simp_all add: repeat_and_reshape_for_beam_search_def reshape_rows_fixed then_do_def
          numeral_2_eq_2)
  have pd: "pad_generation_row 2 2 [0, 3, 3] = [0, 3, 3]" "pad_generation_row 2 2 [0, 3, 4] = [0, 3, 4]"
    by (simp_all add: pad_generation_row_no_eos)
  have rs: "reshape_rows (Suc 0) [[0::int, 3, 3]] = Inr [[0, 3, 3]]"
    "reshape_rows (Suc 0) [[Fin 0, Fin (ln (1/2)), Fin (ln (1/2))]]
       = Inr [[Fin 0, Fin (ln (1/2)), Fin (ln (1/2))]]"
    by (simp_all add: reshape_rows_def)
  show ?thesis
    by (simp add: beam_search_step_def tk rp reshape_column_def pd rs then_do_def
          score_sequence_for_beam_search_def topk_def sort_desc_def
          sort_finished_def has_finished_check_def upt_rec del: topk_rows.simps)
qed

lemma beam_search_step_slow_fixed_second:
  "beam_search_step_slow (fixed_distribution [1/32, 3/32, 1/8, 1/2, 1/4]) 2 1 (Suc 0)
     \<lparr>tgt_generation = [[0, 3, 3]],
      seq_log_probs = [[Fin 0, Fin (ln (1/2)), Fin (ln (1/2))]],
      finished_sequences = [], finished_scores = []\<rparr>
   = Inr (Continue
       \<lparr>tgt_generation = [[0, 3, 3, 3]],
        seq_log_probs = [[Fin 0, Fin (ln (1/2)), Fin (ln (1/2)), Fin (ln (1/2))]],
        finished_sequences = [], finished_scores = []\<rparr>)"
proof -
  have tk: "topk_rows [fixed_distribution [1/32, 3/32, 1/8, 1/2, 1/4] [0, 3, 3]] 2
              = Inr ([[Fin (ln (1/2)), Fin (ln (1/4))]], [[3, 4]])"
    by (simp add: fixed_distribution_def topk_def sort_desc_def then_do_def upt_rec)
  have rp: "repeat_and_reshape_for_beam_search [[0::int, 3, 3]] (Suc 0) 2 = Inr [[0, 3, 3], [0, 3, 3]]"
    "repeat_and_reshape_for_beam_search [[Fin 0, Fin (ln (1/2)), Fin (ln (1/2))]] (Suc 0) 2
       = Inr [[Fin 0, Fin (ln (1/2)), Fin (ln (1/2))], [Fin 0, Fin (ln (1/2)), Fin (ln (1/2))]]"
    by (simp_all add: repeat_and_reshape_for_beam_search_def reshape_rows_def then_do_def
          numeral_2_eq_2)
  have pd: "pad_generation_row 2 1 [0, 3, 3, 3] = [0, 3, 3, 3]"
    "pad_generation_row 2 1 [0, 3, 3, 4] = [0, 3, 3, 4]"
    "pad_generation_row 2 2 [0, 3, 3, 3] = [0, 3, 3, 3]"
    "pad_generation_row 2 2 [0, 3, 3, 4] = [0, 3, 3, 4]"
    by (simp_all add: pad_generation_row_no_eos)
  show ?thesis
    by (simp add: beam_search_step_slow_def tk rp reshape_column_def pd then_do_def
          score_sequence_for_beam_search_def topk_def sort_desc_def
          sort_finished_def has_finished_check_def upt_rec del: topk_rows.simps)
qed

lemma beam_search_decode_fixed_3:
  "beam_search_decode (fixed_distribution [1/32, 3/32, 1/8, 1/2, 1/4]) 2 0 1 3 1
     = Some (Inr [[0, 3, 3]])"
  by (simp add: beam_search_decode_def initialize_beams_fixed beam_search_loop.simps last_dim_def
        beam_search_finish_def reshape_rows_def then_do_def beam_search_step_fixed_first)

lemma beam_search_decode_slow_fixed_3:
  "beam_search_decode_slow (fixed_distribution [1/32, 3/32, 1/8, 1/2, 1/4]) 2 0 1 3 1
     = Inr [[0, 3, 3, 3]]"
  by (simp add: beam_search_decode_slow_def initialize_beams_fixed reshape_rows_fixed then_do_def upto_rec1
        beam_search_step_slow_fixed_first beam_search_step_slow_fixed_second)

text \<open>
  C3. On this example, with \<open>max_len = 2\<close> and with \<open>max_len = 3\<close>, the two functions return
  different sequences: \<open>beam_search_decode\<close> stops when the sequences have \<open>max_len\<close> tokens,
  and \<open>beam_search_decode_slow\<close> runs \<open>max_len - 1\<close> rounds from sequences of two tokens and
  returns \<open>max_len + 1\<close> tokens.
\<close>

theorem beam_search_decode_slow_differs:
  "beam_search_decode (fixed_distribution [1/32, 3/32, 1/8, 1/2, 1/4]) 2 0 1 2 1
     = Some (Inr [[0, 3]])
   \<and> beam_search_decode_slow (fixed_distribution [1/32, 3/32, 1/8, 1/2, 1/4]) 2 0 1 2 1
     = Inr [[0, 3, 3]]
   \<and> beam_search_decode (fixed_distribution [1/32, 3/32, 1/8, 1/2, 1/4]) 2 0 1 3 1
     = Some (Inr [[0, 3, 3]])
   \<and> beam_search_decode_slow (fixed_distribution [1/32, 3/32, 1/8, 1/2, 1/4]) 2 0 1 3 1
     = Inr [[0, 3, 3, 3]]"
  using beam_search_decode_fixed_2 beam_search_decode_slow_fixed_2
        beam_search_decode_fixed_3 beam_search_decode_slow_fixed_3
  by simp

end
